theory Spec2Isabelle
  imports Main
begin

section \<open>LogKeeper: a session file logger (src/src/logkeeper.ts)\<close>

text \<open>
  The development embeds the class \<open>LogKeeper\<close> of \<open>logkeeper.ts\<close>: its two timestamp
  formatters, its constructor and \<open>getInstance\<close>, the asynchronous \<open>initializeLogger\<close>,
  \<open>writeLog\<close> with the four public level methods, and \<open>saveLogs\<close>. The Node runtime the
  class runs on (the clock, the file system, write streams, the console) is an explicit
  environment: a record of the process state that every operation takes and returns.
\<close>

subsection \<open>JavaScript strings of numbers\<close>

text \<open>
  \<open>String(n)\<close> of an integer is its decimal numeral, with a leading minus sign when it is
  negative. The digit of a value below ten is the character with code \<open>48 + value\<close>.
\<close>

definition digit :: "nat \<Rightarrow> char" where
  "digit n = char_of (48 + n)"

definition digit_val :: "char \<Rightarrow> nat" where
  "digit_val c = of_char c - 48"

fun String_nat :: "nat \<Rightarrow> string" where
  "String_nat n = (if n < 10 then [digit n] else String_nat (n div 10) @ [digit (n mod 10)])"

declare String_nat.simps [simp del]

definition String_int :: "int \<Rightarrow> string" where
  "String_int y = (if y < 0 then CHR ''-'' # String_nat (nat (- y)) else String_nat (nat y))"

text \<open>
  \<open>s.padStart(n, c)\<close> with a pad string of one character: \<open>s\<close> itself when it already has
  \<open>n\<close> characters or more, otherwise \<open>s\<close> with copies of \<open>c\<close> in front up to length \<open>n\<close>.
\<close>

definition padStart :: "nat \<Rightarrow> char \<Rightarrow> string \<Rightarrow> string" where
  "padStart n c s = replicate (n - length s) c @ s"

text \<open>Reading a decimal numeral back; used only to state and prove properties.\<close>

definition decimal_val :: "string \<Rightarrow> nat" where
  "decimal_val s = foldl (\<lambda>a c. 10 * a + digit_val c) 0 s"

subsection \<open>Dates\<close>

text \<open>
  A \<open>Date\<close> is read by the class only through its local-time getters, so it is modelled as
  the record of what they return: \<open>getFullYear\<close> (an integer), \<open>getMonth\<close> (0 to 11),
  \<open>getDate\<close> (1 to 31), \<open>getHours\<close>, \<open>getMinutes\<close>, \<open>getSeconds\<close> and
  \<open>getMilliseconds\<close>. Every \<open>new Date()\<close> of the source is a parameter of the model: the
  wall-clock reading at that call.
\<close>

record Date =
  getFullYear :: int
  getMonth :: nat
  getDate :: nat
  getHours :: nat
  getMinutes :: nat
  getSeconds :: nat
  getMilliseconds :: nat

definition valid_date :: "Date \<Rightarrow> bool" where
  "valid_date d \<longleftrightarrow>
     getMonth d < 12 \<and> 1 \<le> getDate d \<and> getDate d \<le> 31 \<and>
     getHours d < 24 \<and> getMinutes d < 60 \<and> getSeconds d < 60 \<and> getMilliseconds d < 1000"

text \<open>The reading of a wall clock that shows seconds: everything but the milliseconds.\<close>

definition wall_clock_second :: "Date \<Rightarrow> int \<times> nat \<times> nat \<times> nat \<times> nat \<times> nat" where
  "wall_clock_second d =
     (getFullYear d, getMonth d, getDate d, getHours d, getMinutes d, getSeconds d)"

subsection \<open>The two formatters\<close>

definition formatFilenameTimestamp :: "Date \<Rightarrow> string" where
  "formatFilenameTimestamp date =
     (let year = getFullYear date;
          month = padStart 2 CHR ''0'' (String_nat (getMonth date + 1));
          day = padStart 2 CHR ''0'' (String_nat (getDate date));
          hours = padStart 2 CHR ''0'' (String_nat (getHours date));
          minutes = padStart 2 CHR ''0'' (String_nat (getMinutes date));
          seconds = padStart 2 CHR ''0'' (String_nat (getSeconds date))
      in String_int year @ ''-'' @ month @ ''-'' @ day @ ''_'' @ hours @ ''-'' @ minutes
           @ ''-'' @ seconds)"

definition formatLogTimestamp :: "Date \<Rightarrow> string" where
  "formatLogTimestamp date =
     (let hours = padStart 2 CHR ''0'' (String_nat (getHours date));
          minutes = padStart 2 CHR ''0'' (String_nat (getMinutes date));
          seconds = padStart 2 CHR ''0'' (String_nat (getSeconds date))
      in hours @ '':'' @ minutes @ '':'' @ seconds)"

subsection \<open>Log levels\<close>

text \<open>
  Modelled from the spec: the enum \<open>LogLevel\<close> of \<open>./log-levels\<close>, which \<open>logkeeper.ts\<close>
  imports and whose file is not among the sources. The specification gives the closed
  enumeration INFO, WARNING, ERROR, CRITICAL and prints a level in an entry by that name.
\<close>

datatype LogLevel = INFO | WARNING | ERROR | CRITICAL

fun level_text :: "LogLevel \<Rightarrow> string" where
  "level_text INFO = ''INFO''"
| "level_text WARNING = ''WARNING''"
| "level_text ERROR = ''ERROR''"
| "level_text CRITICAL = ''CRITICAL''"

text \<open>The template literal of \<open>writeLog\<close>: \<open>[timestamp] level: message\<close> and a line feed.\<close>

definition logEntry :: "string \<Rightarrow> LogLevel \<Rightarrow> string \<Rightarrow> string" where
  "logEntry timestamp level message =
     ''['' @ timestamp @ ''] '' @ level_text level @ '': '' @ message @ [CHR 0x0A]"

definition line_count :: "string \<Rightarrow> nat" where
  "line_count s = length (filter (\<lambda>c. c = CHR 0x0A) s)"

subsection \<open>The process: objects, streams, file system, console\<close>

text \<open>
  A JavaScript error value, carried by its message or code.
\<close>

datatype error = Error string

text \<open>
  A write stream of \<open>node:fs\<close>, opened in append mode: the path it writes to, the bytes
  \<open>write\<close> has accepted that are not yet on the medium, whether \<open>end\<close> has been
  called on it, and whether the runtime has destroyed it after a failure.
\<close>

record WriteStream =
  path :: string
  buffered :: string
  ended :: bool
  destroyed :: bool

text \<open>
  A \<open>LogKeeper\<close> object with its three fields. \<open>writeStream\<close> is \<open>null\<close> (\<open>None\<close>) or a
  reference to a stream of the process.
\<close>

record LogKeeper =
  writeStream :: "nat option"
  logDir :: string
  logFile :: string

text \<open>
  The state of the process. Objects live in stores and are referred to by their index, so
  that two references to one object see the same fields: \<open>instances\<close> holds the
  \<open>LogKeeper\<close> objects constructed so far and \<open>streams\<close> the write streams.
  \<open>static_instance\<close> is the static field \<open>LogKeeper.instance\<close>. \<open>dirs\<close> and
  \<open>files\<close> are the file system, \<open>console\<close> the lines given to \<open>console.error\<close> (a
  text and the error value printed after it, if any), \<open>unhandled\<close> the error events no
  listener took, and \<open>pending\<close> the objects whose \<open>initializeLogger\<close> is suspended at its
  \<open>await\<close>, in the order they were started.
\<close>

record process =
  instances :: "LogKeeper list"
  static_instance :: "nat option"
  streams :: "WriteStream list"
  dirs :: "string set"
  files :: "string \<rightharpoonup> string"
  console :: "(string \<times> error option) list"
  unhandled :: "error list"
  pending :: "nat list"

definition initial_process :: process where
  "initial_process =
     \<lparr>instances = [], static_instance = None, streams = [], dirs = {}, files = Map.empty,
      console = [], unhandled = [], pending = []\<rparr>"

datatype completion = Returned | Threw error

datatype settled = Resolved | Rejected error

subsection \<open>The runtime the class calls\<close>

text \<open>
  \<open>join\<close> of \<open>node:path\<close> on a directory name and a file name, with the POSIX
  separator. Neither segment the class passes has an empty, \<open>.\<close> or \<open>..\<close> component, so
  the normalisation \<open>join\<close> performs leaves the result as it is.
\<close>

definition join :: "string \<Rightarrow> string \<Rightarrow> string" where
  "join a b = a @ ''/'' @ b"

text \<open>
  \<open>mkdir(p, {recursive: true})\<close> when it succeeds: \<open>p\<close> and every ancestor of \<open>p\<close> is a
  directory afterwards, and a directory that was there already is no error.
  \<open>path_prefixes [] p\<close> lists the ancestors of \<open>p\<close> and \<open>p\<close> itself.
\<close>

fun path_prefixes :: "string \<Rightarrow> string \<Rightarrow> string list" where
  "path_prefixes acc [] = [acc]"
| "path_prefixes acc (c # cs) =
     (if c = CHR ''/'' \<and> acc \<noteq> [] then acc # path_prefixes (acc @ [c]) cs
      else path_prefixes (acc @ [c]) cs)"

definition mkdir_recursive :: "string \<Rightarrow> string set \<Rightarrow> string set" where
  "mkdir_recursive p ds = ds \<union> set (path_prefixes [] p)"

text \<open>
  \<open>createWriteStream(p, {flags: 'a', encoding: 'utf8'})\<close> returns a new stream object at
  once and never throws on a string path. The open that the runtime performs for it is
  taken together with the creation; its outcome is a parameter. A successful open in
  append mode creates the file, empty, when it is absent and keeps its contents
  otherwise. A failed open destroys the stream and raises its \<open>error\<close> event, for which
  the class registers no listener.
\<close>

definition createWriteStream :: "string \<Rightarrow> error option \<Rightarrow> process \<Rightarrow> nat \<times> process" where
  "createWriteStream p open_outcome s =
     (let h = length (streams s) in
      (h, case open_outcome of
            None \<Rightarrow>
              s\<lparr>streams := streams s @ [\<lparr>path = p, buffered = [], ended = False, destroyed = False\<rparr>],
                files := (case files s p of None \<Rightarrow> (files s)(p \<mapsto> []) | Some c \<Rightarrow> files s)\<rparr>
          | Some e \<Rightarrow>
              s\<lparr>streams := streams s @ [\<lparr>path = p, buffered = [], ended = False, destroyed = True\<rparr>],
                unhandled := unhandled s @ [e]\<rparr>))"

text \<open>
  \<open>stream.write(chunk)\<close> with a string chunk: the call itself only buffers the chunk
  and returns; a stream that has finished or was destroyed does not accept it. The
  transfer of the buffered bytes to the medium is done by the runtime afterwards and is
  \<open>stream_flush\<close> below.
\<close>

definition stream_write :: "nat \<Rightarrow> string \<Rightarrow> process \<Rightarrow> process" where
  "stream_write h chunk s =
     (let w = streams s ! h in
      if ended w \<or> destroyed w then s
      else s\<lparr>streams := (streams s)[h := w\<lparr>buffered := buffered w @ chunk\<rparr>]\<rparr>)"

text \<open>
  The runtime writing out what a stream has buffered, some time after \<open>write\<close>; the
  outcome is a parameter. On success the bytes are appended to the file. On failure the
  stream is destroyed and its \<open>error\<close> event is raised; the class registers no listener
  on its stream, so the event is unhandled. A stream that was destroyed, or has nothing
  buffered, is left alone.
\<close>

definition stream_flush :: "error option \<Rightarrow> nat \<Rightarrow> process \<Rightarrow> process" where
  "stream_flush write_outcome h s =
     (if h < length (streams s) then
        (let w = streams s ! h in
         if destroyed w \<or> buffered w = [] then s
         else case write_outcome of
                None \<Rightarrow>
                  s\<lparr>files := (files s)(path w \<mapsto>
                       (case files s (path w) of None \<Rightarrow> [] | Some c \<Rightarrow> c) @ buffered w),
                    streams := (streams s)[h := w\<lparr>buffered := []\<rparr>]\<rparr>
              | Some e \<Rightarrow>
                  s\<lparr>streams := (streams s)[h := w\<lparr>destroyed := True\<rparr>],
                    unhandled := unhandled s @ [e]\<rparr>)
      else s)"

text \<open>
  \<open>stream.end(callback)\<close>, run to the call of its callback: the buffered bytes are
  appended to the file and the handle is released, and the callback gets no error; or the
  medium fails (the outcome is a parameter), the stream is destroyed, the callback gets
  the error, and the \<open>error\<close> event of the stream is raised as well, unhandled since the
  class registers no listener. On a stream that is destroyed or has finished the callback
  gets an error. The first component of the result is what the callback receives.
\<close>

definition stream_end :: "error option \<Rightarrow> nat \<Rightarrow> process \<Rightarrow> error option \<times> process" where
  "stream_end end_outcome h s =
     (let w = streams s ! h in
      if destroyed w then (Some (Error ''ERR_STREAM_DESTROYED''), s)
      else if ended w then (Some (Error ''ERR_STREAM_ALREADY_FINISHED''), s)
      else case end_outcome of
             None \<Rightarrow>
               (None,
                s\<lparr>files := (files s)(path w \<mapsto>
                     (case files s (path w) of None \<Rightarrow> [] | Some c \<Rightarrow> c) @ buffered w),
                  streams := (streams s)[h := w\<lparr>buffered := [], ended := True\<rparr>]\<rparr>)
           | Some e \<Rightarrow>
               (Some e,
                s\<lparr>streams := (streams s)[h := w\<lparr>ended := True, destroyed := True\<rparr>],
                  unhandled := unhandled s @ [e]\<rparr>))"

subsection \<open>Construction and initialisation\<close>

text \<open>
  The constructor allocates the object with \<open>writeStream = null\<close>, sets \<open>logDir\<close> and
  \<open>logFile\<close> from the clock reading \<open>now\<close>, and calls \<open>initializeLogger\<close>. That call
  runs up to its \<open>await mkdir(...)\<close> and returns a promise: the rest of it is queued in
  \<open>pending\<close>. The promise cannot reject, since the whole body is inside \<open>try\<close>, so the
  handler the constructor attaches with \<open>catch\<close> never runs.
\<close>

definition LogKeeper_constructor :: "Date \<Rightarrow> process \<Rightarrow> nat \<times> process" where
  "LogKeeper_constructor now s =
     (let this = length (instances s);
          filenameTimestamp = formatFilenameTimestamp now;
          obj = \<lparr>writeStream = None, logDir = ''logs'',
                 logFile = join ''logs'' (filenameTimestamp @ ''.log'')\<rparr>
      in (this, s\<lparr>instances := instances s @ [obj], pending := pending s @ [this]\<rparr>))"

definition getInstance :: "Date \<Rightarrow> process \<Rightarrow> nat \<times> process" where
  "getInstance now s =
     (let (this, s1) = LogKeeper_constructor now s
      in (this, s1\<lparr>static_instance := Some this\<rparr>))"

text \<open>
  The part of \<open>initializeLogger\<close> after \<open>await mkdir(...)\<close>, for the object \<open>this\<close>.
  \<open>mkdir_outcome\<close> is what the awaited \<open>mkdir\<close> gave: an error, which the \<open>catch\<close> block
  prints, or success, after which the stream is created and stored in the field.
\<close>

definition initializeLogger_resume ::
  "error option \<Rightarrow> error option \<Rightarrow> nat \<Rightarrow> process \<Rightarrow> process" where
  "initializeLogger_resume mkdir_outcome open_outcome this s =
     (case mkdir_outcome of
        Some e \<Rightarrow> s\<lparr>console := console s @ [(''Failed to initialize LogKeeper:'', Some e)]\<rparr>
      | None \<Rightarrow>
          (let obj = instances s ! this;
               s1 = s\<lparr>dirs := mkdir_recursive (logDir obj) (dirs s)\<rparr>;
               (h, s2) = createWriteStream (logFile obj) open_outcome s1
           in s2\<lparr>instances := (instances s2)[this := obj\<lparr>writeStream := Some h\<rparr>]\<rparr>))"

text \<open>One turn of the event loop: the oldest suspended \<open>initializeLogger\<close> resumes.\<close>

definition run_pending :: "error option \<Rightarrow> error option \<Rightarrow> process \<Rightarrow> process" where
  "run_pending mkdir_outcome open_outcome s =
     (case pending s of
        [] \<Rightarrow> s
      | this # rest \<Rightarrow> initializeLogger_resume mkdir_outcome open_outcome this (s\<lparr>pending := rest\<rparr>))"

subsection \<open>Writing an entry\<close>

text \<open>
  \<open>writeLog\<close> after its first line, on the object \<open>instance\<close> that \<open>getInstance\<close>
  returned: the null check with its report and early return, then the entry and the
  write. \<open>now\<close> is the clock reading of the \<open>new Date()\<close> in the body. No statement of the
  body throws: \<open>console.error\<close> and the formatters do not, and \<open>write\<close> with a string chunk
  does not.
\<close>

definition writeLog_on :: "Date \<Rightarrow> LogLevel \<Rightarrow> string \<Rightarrow> nat \<Rightarrow> process \<Rightarrow> completion \<times> process" where
  "writeLog_on now level message instance s =
     (case writeStream (instances s ! instance) of
        None \<Rightarrow> (Returned, s\<lparr>console := console s @ [(''LogKeeper not initialized'', None)]\<rparr>)
      | Some h \<Rightarrow>
          (let timestamp = formatLogTimestamp now;
               entry = logEntry timestamp level message
           in (Returned, stream_write h entry s)))"

text \<open>
  \<open>writeLog\<close>: \<open>ctor_now\<close> is the clock reading inside the constructor that
  \<open>getInstance\<close> runs, \<open>now\<close> the one of the body.
\<close>

definition writeLog :: "Date \<Rightarrow> Date \<Rightarrow> LogLevel \<Rightarrow> string \<Rightarrow> process \<Rightarrow> completion \<times> process" where
  "writeLog ctor_now now level message s =
     (let (instance, s1) = getInstance ctor_now s
      in writeLog_on now level message instance s1)"

definition info :: "Date \<Rightarrow> Date \<Rightarrow> string \<Rightarrow> process \<Rightarrow> completion \<times> process" where
  "info ctor_now now message s = writeLog ctor_now now INFO message s"

definition warning :: "Date \<Rightarrow> Date \<Rightarrow> string \<Rightarrow> process \<Rightarrow> completion \<times> process" where
  "warning ctor_now now message s = writeLog ctor_now now WARNING message s"

definition error :: "Date \<Rightarrow> Date \<Rightarrow> string \<Rightarrow> process \<Rightarrow> completion \<times> process" where
  "error ctor_now now message s = writeLog ctor_now now ERROR message s"

definition critical :: "Date \<Rightarrow> Date \<Rightarrow> string \<Rightarrow> process \<Rightarrow> completion \<times> process" where
  "critical ctor_now now message s = writeLog ctor_now now CRITICAL message s"

subsection \<open>Saving the logs\<close>

text \<open>
  \<open>saveLogs\<close> after its first line, on the object \<open>instance\<close>: when the field holds a
  stream, \<open>end\<close> is called on it and the promise settles from its callback, rejected with
  the error or, with the field set back to \<open>null\<close>, resolved. When the field is \<open>null\<close>
  nothing is done and the promise resolves. The result is how the promise settles.
\<close>

definition saveLogs_on :: "error option \<Rightarrow> nat \<Rightarrow> process \<Rightarrow> settled \<times> process" where
  "saveLogs_on end_outcome instance s =
     (case writeStream (instances s ! instance) of
        None \<Rightarrow> (Resolved, s)
      | Some h \<Rightarrow>
          (case stream_end end_outcome h s of
             (Some e, s1) \<Rightarrow> (Rejected e, s1)
           | (None, s1) \<Rightarrow>
               (Resolved,
                s1\<lparr>instances :=
                     (instances s1)[instance := (instances s1 ! instance)\<lparr>writeStream := None\<rparr>]\<rparr>)))"

definition saveLogs :: "Date \<Rightarrow> error option \<Rightarrow> process \<Rightarrow> settled \<times> process" where
  "saveLogs ctor_now end_outcome s =
     (let (instance, s1) = getInstance ctor_now s
      in saveLogs_on end_outcome instance s1)"

subsection \<open>Observations\<close>

text \<open>The streams whose handle has not been released, and the lines of a file.\<close>

definition open_streams :: "process \<Rightarrow> nat list" where
  "open_streams s =
     filter (\<lambda>h. \<not> ended (streams s ! h) \<and> \<not> destroyed (streams s ! h)) [0..<length (streams s)]"

definition file_lines :: "process \<Rightarrow> string \<Rightarrow> nat" where
  "file_lines s p = (case files s p of None \<Rightarrow> 0 | Some c \<Rightarrow> line_count c)"

subsection \<open>Runs of the process\<close>

text \<open>
  What can happen to the process from outside the class: a call of a level method (here
  through \<open>writeLog\<close>), a call of \<open>saveLogs\<close>, a turn of the event loop that resumes an
  initialisation, and the runtime writing out the buffer of a stream. A run is a list of
  such steps, taken in order.
\<close>

datatype step =
    Emit Date Date LogLevel string
  | Close Date "error option"
  | Tick "error option" "error option"
  | Drain "error option" nat

fun do_step :: "step \<Rightarrow> process \<Rightarrow> process" where
  "do_step (Emit ctor_now now level message) s = snd (writeLog ctor_now now level message s)"
| "do_step (Close ctor_now end_outcome) s = snd (saveLogs ctor_now end_outcome s)"
| "do_step (Tick mkdir_outcome open_outcome) s = run_pending mkdir_outcome open_outcome s"
| "do_step (Drain write_outcome h) s = stream_flush write_outcome h s"

fun run :: "step list \<Rightarrow> process \<Rightarrow> process" where
  "run [] s = s"
| "run (x # xs) s = run xs (do_step x s)"

definition files_empty :: "process \<Rightarrow> bool" where
  "files_empty s \<longleftrightarrow> (\<forall>p c. files s p = Some c \<longrightarrow> c = [])"

definition buffers_empty :: "process \<Rightarrow> bool" where
  "buffers_empty s \<longleftrightarrow> list_all (\<lambda>w. buffered w = []) (streams s)"

definition none_ended :: "process \<Rightarrow> bool" where
  "none_ended s \<longleftrightarrow> list_all (\<lambda>w. \<not> ended w) (streams s)"

subsection \<open>The documented patterns\<close>

text \<open>
  The patterns \<open>yyyy\<close>, \<open>MM\<close>, \<open>dd\<close>, \<open>HH\<close>, \<open>mm\<close>, \<open>ss\<close> of the documented file name
  \<open>yyyy-MM-dd_HH-mm-ss.log\<close> stand for a number written with a fixed count of decimal
  digits, zeros in front. \<open>zero_padded k n\<close> is that numeral, defined on its own, without
  \<open>String\<close> or \<open>padStart\<close>; \<open>two_digits\<close> and \<open>four_digits\<close> spell out the two
  widths that occur.
\<close>

fun zero_padded :: "nat \<Rightarrow> nat \<Rightarrow> string" where
  "zero_padded 0 n = []"
| "zero_padded (Suc k) n = zero_padded k (n div 10) @ [digit (n mod 10)]"

definition two_digits :: "nat \<Rightarrow> string" where
  "two_digits n = [digit (n div 10), digit (n mod 10)]"

definition four_digits :: "nat \<Rightarrow> string" where
  "four_digits n =
     [digit (n div 1000), digit (n div 100 mod 10), digit (n div 10 mod 10), digit (n mod 10)]"

subsection \<open>Sample clock readings\<close>

text \<open>Three readings one second apart, on 19 October 2025.\<close>

definition at_14_30_45 :: Date where
  "at_14_30_45 = \<lparr>getFullYear = 2025, getMonth = 9, getDate = 19, getHours = 14,
     getMinutes = 30, getSeconds = 45, getMilliseconds = 0\<rparr>"

definition at_14_30_46 :: Date where
  "at_14_30_46 = \<lparr>getFullYear = 2025, getMonth = 9, getDate = 19, getHours = 14,
     getMinutes = 30, getSeconds = 46, getMilliseconds = 0\<rparr>"

definition at_14_30_47 :: Date where
  "at_14_30_47 = \<lparr>getFullYear = 2025, getMonth = 9, getDate = 19, getHours = 14,
     getMinutes = 30, getSeconds = 47, getMilliseconds = 0\<rparr>"

section \<open>Decimal numerals\<close>

lemma digit_val_digit: "n < 10 \<Longrightarrow> digit_val (digit n) = n"
  by (simp add: digit_val_def digit_def)

lemma digit_zero: "digit 0 = CHR ''0''"
  by (simp add: digit_def char_of_eq_iff)

lemma digit_not_minus: "n < 10 \<Longrightarrow> digit n \<noteq> CHR ''-''"
  by (auto simp: digit_def char_of_eq_iff take_bit_eq_mod)

lemma digit_not_newline: "n < 10 \<Longrightarrow> digit n \<noteq> CHR 0x0A"
  by (auto simp: digit_def char_of_eq_iff take_bit_eq_mod)

lemma decimal_val_snoc: "decimal_val (s @ [c]) = 10 * decimal_val s + digit_val c"
  by (simp add: decimal_val_def)

text \<open>Reading back the numeral of \<open>n\<close> gives \<open>n\<close>, so \<open>String_nat\<close> is injective.\<close>

lemma decimal_val_String_nat: "decimal_val (String_nat n) = n"
proof (induction n rule: String_nat.induct)
  case (1 n)
  show ?case
  proof (cases "n < 10")
    case True
    then show ?thesis
      by (simp add: String_nat.simps [of n] decimal_val_def digit_val_digit)
  next
    case False
    with 1 show ?thesis
      by (simp add: String_nat.simps [of n] decimal_val_snoc digit_val_digit)
  qed
qed

lemma String_nat_inj: "String_nat m = String_nat n \<Longrightarrow> m = n"
  by (metis decimal_val_String_nat)

lemma String_nat_not_Nil: "String_nat n \<noteq> []"
  by (subst String_nat.simps) simp

lemma hd_String_nat: "hd (String_nat n) \<noteq> CHR ''-''"
proof (induction n rule: String_nat.induct)
  case (1 n)
  show ?case
  proof (cases "n < 10")
    case True
    then show ?thesis
      by (simp add: String_nat.simps [of n] digit_not_minus)
  next
    case False
    with 1 show ?thesis
      by (simp add: String_nat.simps [of n] String_nat_not_Nil)
  qed
qed

lemma String_int_inj: "String_int x = String_int y \<Longrightarrow> x = y"
proof -
  assume eq: "String_int x = String_int y"
  have neg: "\<And>a b. CHR ''-'' # String_nat a \<noteq> String_nat b"
    using hd_String_nat String_nat_not_Nil by (metis list.sel(1))
  show ?thesis
  proof (cases "x < 0")
    case xn: True
    show ?thesis
    proof (cases "y < 0")
      case True
      with xn eq have "nat (- x) = nat (- y)"
        by (simp add: String_int_def String_nat_inj)
      with xn True show ?thesis by simp
    next
      case False
      with xn eq neg show ?thesis by (simp add: String_int_def)
    qed
  next
    case xp: False
    show ?thesis
    proof (cases "y < 0")
      case True
      with xp eq neg [of "nat (- y)" "nat x"] show ?thesis by (simp add: String_int_def)
    next
      case False
      with xp eq have "nat x = nat y"
        by (simp add: String_int_def String_nat_inj)
      with xp False show ?thesis by simp
    qed
  qed
qed

lemma String_nat_one_digit: "n < 10 \<Longrightarrow> String_nat n = [digit n]"
  by (simp add: String_nat.simps [of n])

lemma String_nat_step: "10 \<le> n \<Longrightarrow> String_nat n = String_nat (n div 10) @ [digit (n mod 10)]"
  by (simp add: String_nat.simps [of n])

lemma String_nat_two_digits: "10 \<le> n \<Longrightarrow> n < 100 \<Longrightarrow> String_nat n = two_digits n"
  by (simp add: String_nat_step String_nat_one_digit two_digits_def)

lemma String_nat_four_digits:
  assumes "1000 \<le> n" "n < 10000"
  shows "String_nat n = four_digits n"
proof -
  have e1: "n div 10 div 10 = n div 100" and e2: "n div 100 div 10 = n div 1000"
    by (simp_all add: div_mult2_eq [symmetric])
  have a: "String_nat n = String_nat (n div 10) @ [digit (n mod 10)]"
    using assms by (simp add: String_nat_step)
  have b: "String_nat (n div 10) = String_nat (n div 100) @ [digit (n div 10 mod 10)]"
    using assms String_nat_step [of "n div 10"] by (simp add: e1)
  have c: "String_nat (n div 100) = String_nat (n div 1000) @ [digit (n div 100 mod 10)]"
    using assms String_nat_step [of "n div 100"] by (simp add: e2)
  have d: "String_nat (n div 1000) = [digit (n div 1000)]"
    using assms by (simp add: String_nat_one_digit)
  show ?thesis
    by (simp add: a b c d four_digits_def)
qed

text \<open>Below one hundred, \<open>padStart(2, '0')\<close> of the numeral is the two-digit form.\<close>

lemma pad2: "n < 100 \<Longrightarrow> padStart 2 CHR ''0'' (String_nat n) = two_digits n"
  by (cases "n < 10")
    (simp_all add: padStart_def String_nat_one_digit String_nat_two_digits digit_zero
      two_digits_def)

lemma two_digits_inj:
  assumes "m < 100" "n < 100" and "two_digits m = two_digits n"
  shows "m = n"
proof -
  from assms(3) have "digit (m div 10) = digit (n div 10)" "digit (m mod 10) = digit (n mod 10)"
    by (simp_all add: two_digits_def)
  then have "digit_val (digit (m div 10)) = digit_val (digit (n div 10))"
    "digit_val (digit (m mod 10)) = digit_val (digit (n mod 10))"
    by simp_all
  with assms(1,2) have "m div 10 = n div 10" "m mod 10 = n mod 10"
    by (simp_all add: digit_val_digit)
  then show ?thesis
    by (metis div_mult_mod_eq)
qed

lemma zero_padded_2: "n < 100 \<Longrightarrow> zero_padded 2 n = two_digits n"
  by (simp add: numeral_2_eq_2 two_digits_def)

lemma zero_padded_4: "n < 10000 \<Longrightarrow> zero_padded 4 n = four_digits n"
proof -
  assume n: "n < 10000"
  have four: "(4::nat) = Suc (Suc (Suc (Suc 0)))" by simp
  have e1: "n div 10 div 10 = n div 100" and e2: "n div 100 div 10 = n div 1000"
    by (simp_all add: div_mult2_eq [symmetric])
  from n have e3: "n div 1000 mod 10 = n div 1000" by simp
  show ?thesis
    unfolding four by (simp add: four_digits_def e1 e2 e3)
qed

section \<open>The formatters on valid dates\<close>

lemma formatFilenameTimestamp_valid:
  assumes "valid_date d"
  shows "formatFilenameTimestamp d =
     String_int (getFullYear d) @ ''-'' @ two_digits (getMonth d + 1) @ ''-''
       @ two_digits (getDate d) @ ''_'' @ two_digits (getHours d) @ ''-''
       @ two_digits (getMinutes d) @ ''-'' @ two_digits (getSeconds d)"
  using assms by (simp add: formatFilenameTimestamp_def valid_date_def pad2)

lemma formatLogTimestamp_valid:
  assumes "valid_date d"
  shows "formatLogTimestamp d =
     two_digits (getHours d) @ '':'' @ two_digits (getMinutes d) @ '':''
       @ two_digits (getSeconds d)"
  using assms by (simp add: formatLogTimestamp_def valid_date_def pad2)

text \<open>
  The file-name stamp determines the six fields. Everything after the year has a fixed
  length, so two equal stamps have equal year numerals and equal remainders.
\<close>

lemma formatFilenameTimestamp_inj:
  assumes v1: "valid_date d1" and v2: "valid_date d2"
    and eq: "formatFilenameTimestamp d1 = formatFilenameTimestamp d2"
  shows "wall_clock_second d1 = wall_clock_second d2"
proof -
  let ?t = "\<lambda>d. ''-'' @ two_digits (getMonth d + 1) @ ''-'' @ two_digits (getDate d)
       @ ''_'' @ two_digits (getHours d) @ ''-'' @ two_digits (getMinutes d) @ ''-''
       @ two_digits (getSeconds d)"
  have len: "length (?t d1) = length (?t d2)"
    by (simp add: two_digits_def)
  from eq have "String_int (getFullYear d1) @ ?t d1 = String_int (getFullYear d2) @ ?t d2"
    by (simp only: formatFilenameTimestamp_valid [OF v1] formatFilenameTimestamp_valid [OF v2])
  then have both: "String_int (getFullYear d1) = String_int (getFullYear d2) \<and> ?t d1 = ?t d2"
    using len by (subst (asm) append_eq_append_conv) (rule disjI2)
  from both have y: "String_int (getFullYear d1) = String_int (getFullYear d2)" ..
  from both have t: "?t d1 = ?t d2" ..
  from t have parts: "two_digits (getMonth d1 + 1) = two_digits (getMonth d2 + 1)"
    "two_digits (getDate d1) = two_digits (getDate d2)"
    "two_digits (getHours d1) = two_digits (getHours d2)"
    "two_digits (getMinutes d1) = two_digits (getMinutes d2)"
    "two_digits (getSeconds d1) = two_digits (getSeconds d2)"
    by (simp_all add: two_digits_def)
  from v1 v2 have bounds:
    "getMonth d1 + 1 < 100" "getMonth d2 + 1 < 100" "getDate d1 < 100" "getDate d2 < 100"
    "getHours d1 < 100" "getHours d2 < 100" "getMinutes d1 < 100" "getMinutes d2 < 100"
    "getSeconds d1 < 100" "getSeconds d2 < 100"
    by (simp_all add: valid_date_def)
  have "getMonth d1 + 1 = getMonth d2 + 1"
    using two_digits_inj bounds(1,2) parts(1) by blast
  moreover have "getDate d1 = getDate d2"
    using two_digits_inj bounds(3,4) parts(2) by blast
  moreover have "getHours d1 = getHours d2"
    using two_digits_inj bounds(5,6) parts(3) by blast
  moreover have "getMinutes d1 = getMinutes d2"
    using two_digits_inj bounds(7,8) parts(4) by blast
  moreover have "getSeconds d1 = getSeconds d2"
    using two_digits_inj bounds(9,10) parts(5) by blast
  moreover have "getFullYear d1 = getFullYear d2"
    using y by (rule String_int_inj)
  ultimately show ?thesis
    by (simp add: wall_clock_second_def)
qed

section \<open>Lines of an entry\<close>

lemma line_count_Nil: "line_count [] = 0"
  by (simp add: line_count_def)

lemma line_count_Cons: "line_count (c # s) = (if c = CHR 0x0A then 1 else 0) + line_count s"
  by (simp add: line_count_def)

lemma line_count_append: "line_count (a @ b) = line_count a + line_count b"
  by (simp add: line_count_def)

lemma line_count_level_text: "line_count (level_text level) = 0"
  by (cases level) (simp_all add: line_count_Cons line_count_Nil)

lemma line_count_two_digits: "n < 100 \<Longrightarrow> line_count (two_digits n) = 0"
  by (simp add: two_digits_def line_count_Cons line_count_Nil digit_not_newline)

lemma line_count_formatLogTimestamp:
  assumes "valid_date now"
  shows "line_count (formatLogTimestamp now) = 0"
proof -
  from assms have "getHours now < 100" "getMinutes now < 100" "getSeconds now < 100"
    by (simp_all add: valid_date_def)
  then show ?thesis
    by (simp add: formatLogTimestamp_valid [OF assms] line_count_append line_count_two_digits
        line_count_Cons line_count_Nil)
qed

text \<open>
  The entry is the message between a prefix and a line feed, letter for letter, and it
  has one line terminator more than the message.
\<close>

lemma logEntry_verbatim:
  "\<exists>prefix. logEntry timestamp level message = prefix @ message @ [CHR 0x0A]"
proof
  show "logEntry timestamp level message =
      (''['' @ timestamp @ ''] '' @ level_text level @ '': '') @ message @ [CHR 0x0A]"
    by (simp add: logEntry_def)
qed

lemma line_count_logEntry:
  "valid_date now \<Longrightarrow>
     line_count (logEntry (formatLogTimestamp now) level message) = Suc (line_count message)"
  by (simp add: logEntry_def line_count_append line_count_formatLogTimestamp
      line_count_level_text line_count_Cons line_count_Nil)

text \<open>
  On an object whose field holds a writable stream, the body of \<open>writeLog\<close> hands the
  stream exactly that entry.
\<close>

lemma writeLog_on_open:
  assumes "writeStream (instances s ! instance) = Some h" and "h < length (streams s)"
    and "\<not> ended (streams s ! h)" and "\<not> destroyed (streams s ! h)"
  shows "buffered (streams (snd (writeLog_on now level message instance s)) ! h) =
           buffered (streams s ! h) @ logEntry (formatLogTimestamp now) level message"
  using assms by (simp add: writeLog_on_def stream_write_def Let_def)

section \<open>What every call does\<close>

lemma getInstance_eq:
  "getInstance now s =
     (length (instances s),
      s\<lparr>instances := instances s @
            [\<lparr>writeStream = None, logDir = ''logs'',
              logFile = join ''logs'' (formatFilenameTimestamp now @ ''.log'')\<rparr>],
        pending := pending s @ [length (instances s)],
        static_instance := Some (length (instances s))\<rparr>)"
  by (simp add: getInstance_def LogKeeper_constructor_def Let_def)

lemma writeLog_eq:
  "writeLog ctor_now now level message s =
     (Returned,
      (snd (getInstance ctor_now s))
        \<lparr>console := console s @ [(''LogKeeper not initialized'', None)]\<rparr>)"
  by (simp add: writeLog_def writeLog_on_def getInstance_eq)

lemma saveLogs_eq:
  "saveLogs ctor_now end_outcome s = (Resolved, snd (getInstance ctor_now s))"
  by (simp add: saveLogs_def saveLogs_on_def getInstance_eq)

section \<open>The body of saveLogs on one object\<close>

lemma stream_end_instances: "instances (snd (stream_end eo h s)) = instances s"
  by (simp add: stream_end_def Let_def split: option.splits)

lemma saveLogs_on_closed:
  "writeStream (instances s ! instance) = None \<Longrightarrow> saveLogs_on eo instance s = (Resolved, s)"
  by (simp add: saveLogs_on_def)

text \<open>After a call on an object that resolved, the field of the object is \<open>null\<close>.\<close>

lemma saveLogs_on_resolved_closed:
  assumes "instance < length (instances s)" and "fst (saveLogs_on eo instance s) = Resolved"
  shows "writeStream (instances (snd (saveLogs_on eo instance s)) ! instance) = None"
proof (cases "writeStream (instances s ! instance)")
  case None
  then show ?thesis by (simp add: saveLogs_on_def)
next
  case (Some h)
  obtain r s1 where r: "stream_end eo h s = (r, s1)" by (cases "stream_end eo h s")
  with stream_end_instances [of eo h s] have i: "instances s1 = instances s" by simp
  from assms(2) Some r have "r = None"
    by (cases r) (simp_all add: saveLogs_on_def)
  with Some r i assms(1) show ?thesis
    by (simp add: saveLogs_on_def)
qed

text \<open>
  On an object that holds a writable stream, and with a medium that does not fail, the
  body appends what the stream has buffered to the file and ends the stream.
\<close>

lemma saveLogs_on_flushes:
  assumes "writeStream (instances s ! instance) = Some h" and "h < length (streams s)"
    and "\<not> ended (streams s ! h)" and "\<not> destroyed (streams s ! h)"
    and "files s (path (streams s ! h)) = Some c"
  shows "fst (saveLogs_on None instance s) = Resolved \<and>
    files (snd (saveLogs_on None instance s)) (path (streams s ! h)) =
      Some (c @ buffered (streams s ! h)) \<and>
    ended (streams (snd (saveLogs_on None instance s)) ! h)"
  using assms by (simp add: saveLogs_on_def stream_end_def Let_def)

section \<open>What saveLogs never does\<close>

lemma saveLogs_never_rejects: "fst (saveLogs ctor_now end_outcome s) \<noteq> Rejected e"
  by (simp add: saveLogs_eq)

lemma saveLogs_ignores_end_outcome: "saveLogs ctor_now end_outcome s = saveLogs ctor_now None s"
  by (simp add: saveLogs_eq)

lemma saveLogs_not_noop: "snd (saveLogs ctor_now end_outcome s) \<noteq> s"
proof
  assume "snd (saveLogs ctor_now end_outcome s) = s"
  then have "length (instances (snd (saveLogs ctor_now end_outcome s))) = length (instances s)"
    by simp
  then show False
    by (simp add: saveLogs_eq getInstance_eq)
qed

text \<open>
  The body alone, on an object that holds a stream: it rejects with the error the callback
  of \<open>end\<close> receives, and after a call that resolved a further call on the same object
  resolves and changes nothing.
\<close>

lemma saveLogs_on_rejects:
  "writeStream (instances s ! instance) = Some h \<Longrightarrow> fst (stream_end end_outcome h s) = Some e \<Longrightarrow>
     fst (saveLogs_on end_outcome instance s) = Rejected e"
  by (auto simp: saveLogs_on_def split: prod.splits option.splits)

lemma saveLogs_on_again:
  "instance < length (instances s) \<Longrightarrow> fst (saveLogs_on e1 instance s) = Resolved \<Longrightarrow>
     saveLogs_on e2 instance (snd (saveLogs_on e1 instance s)) =
       (Resolved, snd (saveLogs_on e1 instance s))"
  by (simp add: saveLogs_on_closed saveLogs_on_resolved_closed)

section \<open>Invariants of every run\<close>

lemma files_run_pending:
  "files (run_pending mo oo s) p = files s p \<or>
   (files s p = None \<and> files (run_pending mo oo s) p = Some [])"
  by (simp add: run_pending_def initializeLogger_resume_def createWriteStream_def Let_def
      split: list.splits option.splits)

text \<open>While no stream has anything buffered, the runtime has nothing to write out.\<close>

lemma stream_flush_idle: "buffers_empty s \<Longrightarrow> stream_flush write_outcome h s = s"
  by (simp add: stream_flush_def buffers_empty_def list_all_length Let_def)

lemma buffers_empty_step: "buffers_empty s \<Longrightarrow> buffers_empty (do_step x s)"
proof (cases x)
  case (Drain wo h)
  assume "buffers_empty s"
  with Drain show ?thesis by (simp add: stream_flush_idle)
qed (auto simp: buffers_empty_def writeLog_eq saveLogs_eq getInstance_eq run_pending_def
      initializeLogger_resume_def createWriteStream_def Let_def split: list.splits option.splits)

lemma files_empty_step:
  assumes b: "buffers_empty s" and a: "files_empty s"
  shows "files_empty (do_step x s)"
proof (cases x)
  case (Emit c n l m)
  with a show ?thesis by (simp add: files_empty_def writeLog_eq getInstance_eq)
next
  case (Close c e)
  with a show ?thesis by (simp add: files_empty_def saveLogs_eq getInstance_eq)
next
  case (Tick mo oo)
  show ?thesis
    unfolding files_empty_def
  proof (intro allI impI)
    fix p c
    assume "files (do_step x s) p = Some c"
    with Tick files_run_pending [of mo oo s p] a show "c = []"
      by (auto simp: files_empty_def)
  qed
next
  case (Drain wo h)
  with a b show ?thesis by (simp add: stream_flush_idle)
qed

lemma none_ended_step:
  assumes b: "buffers_empty s" and a: "none_ended s"
  shows "none_ended (do_step x s)"
proof (cases x)
  case (Drain wo h)
  with a b show ?thesis by (simp add: stream_flush_idle)
qed (use a in \<open>auto simp: none_ended_def writeLog_eq saveLogs_eq getInstance_eq run_pending_def
      initializeLogger_resume_def createWriteStream_def Let_def split: list.splits option.splits\<close>)

lemma invariants_run:
  "buffers_empty s \<Longrightarrow> files_empty s \<Longrightarrow> none_ended s \<Longrightarrow>
     buffers_empty (run xs s) \<and> files_empty (run xs s) \<and> none_ended (run xs s)"
  by (induction xs arbitrary: s)
    (simp_all add: buffers_empty_step files_empty_step none_ended_step)

lemma invariants_initial:
  "buffers_empty initial_process \<and> files_empty initial_process \<and> none_ended initial_process"
  by (simp add: buffers_empty_def files_empty_def none_ended_def initial_process_def)

text \<open>
  Whatever is called, in whatever order and with whatever outcomes of the file system, no
  file of a process that starts with an empty file system ever gets a line.
\<close>

lemma run_file_lines: "file_lines (run xs initial_process) p = 0"
proof -
  have "files_empty (run xs initial_process)"
    using invariants_run [of initial_process xs] invariants_initial by blast
  then have "files (run xs initial_process) p = None \<or> files (run xs initial_process) p = Some []"
    unfolding files_empty_def by (cases "files (run xs initial_process) p") blast+
  then show ?thesis
    by (auto simp: file_lines_def line_count_Nil)
qed

text \<open>In no run is \<open>end\<close> ever called on a stream.\<close>

lemma run_none_ended: "list_all (\<lambda>w. \<not> ended w) (streams (run xs initial_process))"
  using invariants_run [of initial_process xs] invariants_initial
  by (simp add: none_ended_def)

section \<open>The claims\<close>

subsection \<open>Sessions\<close>

text \<open>
  C9. Every call of \<open>getInstance\<close> constructs a new \<open>LogKeeper\<close> and stores it in the
  static field, whatever the field held before: the object returned is the one just
  appended to the store. Its initialisation is only queued, so its \<open>writeStream\<close> field is
  still \<open>null\<close> when \<open>writeLog\<close> and \<open>saveLogs\<close> test it: in every state \<open>writeLog\<close> takes
  the branch that prints \<open>LogKeeper not initialized\<close>, and \<open>saveLogs\<close> skips the call of
  \<open>end\<close> and resolves.
\<close>

theorem getInstance_always_fresh:
  "fst (getInstance now s) = length (instances s) \<and>
   instances (snd (getInstance now s)) = instances s @
     [\<lparr>writeStream = None, logDir = ''logs'',
       logFile = join ''logs'' (formatFilenameTimestamp now @ ''.log'')\<rparr>] \<and>
   static_instance (snd (getInstance now s)) = Some (length (instances s)) \<and>
   pending (snd (getInstance now s)) = pending s @ [length (instances s)] \<and>
   writeStream (instances (snd (getInstance now s)) ! fst (getInstance now s)) = None \<and>
   writeLog now now' level message s =
     (Returned, (snd (getInstance now s))
        \<lparr>console := console s @ [(''LogKeeper not initialized'', None)]\<rparr>) \<and>
   saveLogs now end_outcome s = (Resolved, snd (getInstance now s))"
  by (simp add: writeLog_eq saveLogs_eq) (simp add: getInstance_eq)

text \<open>
  C1. The claim is that one session exists for the life of the process and that every
  call after the first works on it. The class keeps a static field and a \<open>getInstance\<close>
  for that purpose, but \<open>getInstance\<close> never tests the field. Evaluated on
  \<open>LogKeeper.info('a'); LogKeeper.info('b')\<close> one second apart: the first call stores object
  0, the second stores object 1, and once both initialisations have run there are two
  objects with two streams on two files.
\<close>

theorem two_emits_two_sessions:
  "(let s1 = snd (info at_14_30_45 at_14_30_45 ''a'' initial_process);
        s2 = snd (info at_14_30_46 at_14_30_46 ''b'' s1);
        s3 = run_pending None None s2;
        s4 = run_pending None None s3
    in static_instance s1 = Some 0 \<and> static_instance s2 = Some 1 \<and>
       length (instances s2) = 2 \<and>
       map logFile (instances s4) =
         [''logs/2025-10-19_14-30-45.log'', ''logs/2025-10-19_14-30-46.log''] \<and>
       map writeStream (instances s4) = [Some 0, Some 1] \<and>
       map path (streams s4) =
         [''logs/2025-10-19_14-30-45.log'', ''logs/2025-10-19_14-30-46.log''])"
  by code_simp

subsection \<open>Entries in the file\<close>

text \<open>
  C2. The claim is that \<open>n\<close> calls before any \<open>saveLogs\<close> leave \<open>n\<close> formatted lines in the
  log file. Evaluated on the documented use, \<open>info('a')\<close>, \<open>error('b')\<close>, \<open>saveLogs()\<close>,
  with the event loop running after each call and every file-system operation
  succeeding: three log files exist, each is empty, no stream has buffered a byte, and the
  console has the two reports of the two calls. (\<open>run_file_lines\<close> above shows the same
  for every run.)
\<close>

theorem documented_use_leaves_files_empty:
  "(let s1 = snd (info at_14_30_45 at_14_30_45 ''a'' initial_process);
        s2 = run_pending None None s1;
        s3 = snd (error at_14_30_46 at_14_30_46 ''b'' s2);
        s4 = run_pending None None s3;
        s5 = snd (saveLogs at_14_30_47 None s4);
        s6 = run_pending None None s5
    in files s6 ''logs/2025-10-19_14-30-45.log'' = Some [] \<and>
       files s6 ''logs/2025-10-19_14-30-46.log'' = Some [] \<and>
       files s6 ''logs/2025-10-19_14-30-47.log'' = Some [] \<and>
       file_lines s6 ''logs/2025-10-19_14-30-45.log'' = 0 \<and>
       map buffered (streams s6) = [[], [], []] \<and>
       console s6 =
         [(''LogKeeper not initialized'', None), (''LogKeeper not initialized'', None)])"
  by code_simp

text \<open>
  C10. The claim is that a message with a line feed in it reaches the file as an entry of
  more than one line. The entry is indeed built from the message letter for letter
  (\<open>logEntry_verbatim\<close>, \<open>line_count_logEntry\<close>): for the message \<open>x\<close>, line feed, \<open>y\<close> it
  has two line terminators. Evaluated on \<open>info\<close> of that message, with the event loop
  running afterwards: the file exists and is empty, the stream has buffered nothing, and
  the console has the report.
\<close>

theorem newline_message_not_written:
  "(let message = ''x'' @ [CHR 0x0A] @ ''y'';
        s1 = snd (info at_14_30_45 at_14_30_45 message initial_process);
        s2 = run_pending None None s1
    in line_count (logEntry (formatLogTimestamp at_14_30_45) INFO message) = 2 \<and>
       files s2 ''logs/2025-10-19_14-30-45.log'' = Some [] \<and>
       file_lines s2 ''logs/2025-10-19_14-30-45.log'' = 0 \<and>
       map buffered (streams s2) = [[]] \<and>
       console s2 = [(''LogKeeper not initialized'', None)])"
  by code_simp

subsection \<open>Closing\<close>

text \<open>
  C3. The claim is that \<open>saveLogs\<close> flushes what was buffered and releases the handle of
  the session. Evaluated on \<open>info('a')\<close>, a turn of the event loop that opens stream 0 for
  object 0, then \<open>saveLogs()\<close>: the promise resolves, stream 0 is still open and still
  held by object 0, and the next turn of the event loop opens stream 1 for the object
  \<open>saveLogs\<close> constructed. (\<open>run_none_ended\<close> above: no run ever ends a stream;
  \<open>saveLogs_on_flushes\<close>: the body would flush and close, given the object that
  holds the stream.)
\<close>

theorem saveLogs_leaves_stream_open:
  "(let s1 = snd (info at_14_30_45 at_14_30_45 ''a'' initial_process);
        s2 = run_pending None None s1;
        r = saveLogs at_14_30_46 None s2;
        s4 = run_pending None None (snd r)
    in open_streams s2 = [0] \<and> fst r = Resolved \<and> open_streams (snd r) = [0] \<and>
       writeStream (instances (snd r) ! 0) = Some 0 \<and> open_streams s4 = [0, 1])"
  by code_simp

text \<open>
  C5. The claim is that a second \<open>saveLogs\<close> is a no-op. The body has the guard for it
  (\<open>saveLogs_on_again\<close>), but \<open>saveLogs\<close> runs the body on a new object each time
  (\<open>saveLogs_not_noop\<close>: no call leaves the state as it was). Evaluated on \<open>info('a')\<close>,
  \<open>saveLogs()\<close>, \<open>saveLogs()\<close> one second apart, with the event loop running after each
  call: the second \<open>saveLogs\<close> resolves, but it constructs a third object, stores it in the
  static field and queues its initialisation, which then creates a third log file and
  opens a third stream; the two streams opened before are still open.
\<close>

theorem second_saveLogs_starts_new_session:
  "(let s1 = snd (info at_14_30_45 at_14_30_45 ''a'' initial_process);
        s2 = run_pending None None s1;
        s3 = snd (saveLogs at_14_30_46 None s2);
        s4 = run_pending None None s3;
        r = saveLogs at_14_30_47 None s4;
        s6 = run_pending None None (snd r)
    in fst r = Resolved \<and>
       length (instances s4) = 2 \<and> length (instances (snd r)) = 3 \<and>
       static_instance s4 = Some 1 \<and> static_instance (snd r) = Some 2 \<and>
       pending s4 = [] \<and> pending (snd r) = [2] \<and>
       files s4 ''logs/2025-10-19_14-30-47.log'' = None \<and>
       files s6 ''logs/2025-10-19_14-30-47.log'' = Some [] \<and>
       open_streams s4 = [0, 1] \<and> open_streams s6 = [0, 1, 2])"
  by code_simp

subsection \<open>Failures\<close>

text \<open>
  C4. \<open>writeLog\<close> never throws. In every state, so also when the initialisation of an
  earlier object failed and also after \<open>saveLogs\<close> has completed, the call returns, the
  console gets the report \<open>LogKeeper not initialized\<close>, and the entry is dropped: no file
  and no stream changes.
\<close>

theorem writeLog_returns_reports_drops:
  "fst (writeLog ctor_now now level message s) = Returned \<and>
   console (snd (writeLog ctor_now now level message s)) =
     console s @ [(''LogKeeper not initialized'', None)] \<and>
   files (snd (writeLog ctor_now now level message s)) = files s \<and>
   streams (snd (writeLog ctor_now now level message s)) = streams s \<and>
   unhandled (snd (writeLog ctor_now now level message s)) = unhandled s"
  by (simp add: writeLog_eq getInstance_eq)

text \<open>
  C8. The claim is that a failure of the close operation rejects the promise of
  \<open>saveLogs\<close>, and that every failure of an emit is reported on the console and then
  swallowed. The body would reject (\<open>saveLogs_on_rejects\<close>), but \<open>saveLogs\<close> never
  reaches \<open>end\<close> (\<open>saveLogs_never_rejects\<close>, \<open>saveLogs_ignores_end_outcome\<close>).
  Evaluated on \<open>info('a')\<close> followed by a turn of the event loop, in two ways. With the
  open succeeding and a medium that would fail at \<open>end\<close> with \<open>ENOSPC\<close>: \<open>saveLogs()\<close>
  resolves, stream 0 stays open, and nothing is raised. With the open failing with
  \<open>EACCES\<close>: the stream is destroyed and the error is an unhandled error event, and the
  console holds only the line of the call itself, no report of the failure.
\<close>

theorem close_never_rejects_open_failure_unreported:
  "(let s1 = snd (info at_14_30_45 at_14_30_45 ''a'' initial_process);
        s2 = run_pending None None s1;
        r = saveLogs at_14_30_46 (Some (Error ''ENOSPC'')) s2;
        t2 = run_pending None (Some (Error ''EACCES'')) s1
    in open_streams s2 = [0] \<and> fst r = Resolved \<and> open_streams (snd r) = [0] \<and>
       unhandled (snd r) = [] \<and>
       map destroyed (streams t2) = [True] \<and>
       unhandled t2 = [Error ''EACCES''] \<and>
       console t2 = [(''LogKeeper not initialized'', None)])"
  by code_simp

subsection \<open>The file name\<close>

text \<open>
  C6. For a clock reading with a four-digit year, the path of the object's file is the
  directory \<open>logs\<close>, a separator, and the reading in the pattern
  \<open>yyyy-MM-dd_HH-mm-ss\<close> with every field zero-padded, followed by \<open>.log\<close>. When the
  awaited \<open>mkdir\<close> succeeds, \<open>logs\<close> is a directory afterwards and the directories that
  were there remain, and when the open succeeds too the file exists.
\<close>

theorem logFile_path_format:
  assumes "valid_date now" and "1000 \<le> getFullYear now" and "getFullYear now \<le> 9999"
  shows "logDir (instances (snd (getInstance now s)) ! fst (getInstance now s)) = ''logs'' \<and>
    logFile (instances (snd (getInstance now s)) ! fst (getInstance now s)) =
      ''logs'' @ ''/'' @ zero_padded 4 (nat (getFullYear now)) @ ''-''
        @ zero_padded 2 (getMonth now + 1) @ ''-'' @ zero_padded 2 (getDate now) @ ''_''
        @ zero_padded 2 (getHours now) @ ''-'' @ zero_padded 2 (getMinutes now) @ ''-''
        @ zero_padded 2 (getSeconds now) @ ''.log'' \<and>
    ''logs'' \<in> dirs (initializeLogger_resume None open_outcome (fst (getInstance now s))
        (snd (getInstance now s))) \<and>
    dirs s \<subseteq> dirs (initializeLogger_resume None open_outcome (fst (getInstance now s))
        (snd (getInstance now s))) \<and>
    files (initializeLogger_resume None None (fst (getInstance now s)) (snd (getInstance now s)))
      (logFile (instances (snd (getInstance now s)) ! fst (getInstance now s))) \<noteq> None"
proof -
  from assms have y: "String_int (getFullYear now) = zero_padded 4 (nat (getFullYear now))"
    by (simp add: String_int_def String_nat_four_digits zero_padded_4)
  from assms(1) have f: "formatFilenameTimestamp now =
      zero_padded 4 (nat (getFullYear now)) @ ''-'' @ zero_padded 2 (getMonth now + 1)
        @ ''-'' @ zero_padded 2 (getDate now) @ ''_'' @ zero_padded 2 (getHours now)
        @ ''-'' @ zero_padded 2 (getMinutes now) @ ''-'' @ zero_padded 2 (getSeconds now)"
    by (simp add: formatFilenameTimestamp_valid y zero_padded_2 valid_date_def)
  have d: "dirs (initializeLogger_resume None open_outcome (fst (getInstance now s))
        (snd (getInstance now s))) = dirs s \<union> {''logs''}"
    by (cases open_outcome)
      (simp_all add: initializeLogger_resume_def getInstance_eq createWriteStream_def
        mkdir_recursive_def Let_def)
  have e: "files (initializeLogger_resume None None (fst (getInstance now s))
        (snd (getInstance now s)))
      (logFile (instances (snd (getInstance now s)) ! fst (getInstance now s))) \<noteq> None"
    by (simp add: initializeLogger_resume_def getInstance_eq createWriteStream_def Let_def
        split: option.splits)
  have p: "logFile (instances (snd (getInstance now s)) ! fst (getInstance now s)) =
      ''logs'' @ ''/'' @ formatFilenameTimestamp now @ ''.log''"
    "logDir (instances (snd (getInstance now s)) ! fst (getInstance now s)) = ''logs''"
    by (simp_all add: getInstance_eq join_def)
  show ?thesis
    using e by (auto simp: d p f)
qed

text \<open>
  Witness for C6: the first object of a process, constructed on 19 October 2025 at
  14:30:45, has the file \<open>logs/2025-10-19_14-30-45.log\<close>.
\<close>

theorem logFile_path_format_witness:
  "valid_date at_14_30_45 \<and> 1000 \<le> getFullYear at_14_30_45 \<and>
   getFullYear at_14_30_45 \<le> 9999 \<and>
   logFile (instances (snd (getInstance at_14_30_45 initial_process)) ! 0) =
     ''logs/2025-10-19_14-30-45.log'' \<and>
   ''logs'' \<in> dirs (initializeLogger_resume None None 0
     (snd (getInstance at_14_30_45 initial_process)))"
proof -
  have h1: "valid_date at_14_30_45" by code_simp
  have h2: "1000 \<le> getFullYear at_14_30_45" by code_simp
  have h3: "getFullYear at_14_30_45 \<le> 9999" by code_simp
  have i: "fst (getInstance at_14_30_45 initial_process) = 0" by code_simp
  have n: "zero_padded 4 (nat (getFullYear at_14_30_45)) = ''2025''"
    "zero_padded 2 (Suc (getMonth at_14_30_45)) = ''10''"
    "zero_padded 2 (getDate at_14_30_45) = ''19''"
    "zero_padded 2 (getHours at_14_30_45) = ''14''"
    "zero_padded 2 (getMinutes at_14_30_45) = ''30''"
    "zero_padded 2 (getSeconds at_14_30_45) = ''45''"
    by code_simp+
  show ?thesis
    using h1 h2 h3 logFile_path_format [OF h1 h2 h3, of initial_process None]
    by (simp add: i n)
qed

text \<open>
  C7. Two valid clock readings that differ by a second or more differ in one of the six
  fields a clock with seconds shows, and then their file-name stamps differ: the
  formatter is injective on those six fields.
\<close>

theorem formatFilenameTimestamp_distinct_seconds:
  "valid_date d1 \<Longrightarrow> valid_date d2 \<Longrightarrow> wall_clock_second d1 \<noteq> wall_clock_second d2 \<Longrightarrow>
     formatFilenameTimestamp d1 \<noteq> formatFilenameTimestamp d2"
  using formatFilenameTimestamp_inj by blast

text \<open>Witness for C7: 14:30:45 and 14:30:46 of the same day give different stamps.\<close>

theorem formatFilenameTimestamp_distinct_seconds_witness:
  "valid_date at_14_30_45 \<and> valid_date at_14_30_46 \<and>
   wall_clock_second at_14_30_45 \<noteq> wall_clock_second at_14_30_46 \<and>
   formatFilenameTimestamp at_14_30_45 \<noteq> formatFilenameTimestamp at_14_30_46"
  using formatFilenameTimestamp_distinct_seconds [of at_14_30_45 at_14_30_46]
  by (simp add: valid_date_def wall_clock_second_def at_14_30_45_def at_14_30_46_def)

end
